theory Spec2Isabelle
  imports Main "HOL-Library.AList"
begin

section \<open>Connection tracker (server.js and middleware.js, \<open>server.on('connection')\<close>)\<close>

text \<open>
  The values kept in \<open>activeConnections\<close> are JavaScript numbers. The handlers only add and
  subtract one, so a number is an integer here; \<open>undefined - 1\<close> is \<open>NaN\<close>, which is kept as a
  value of its own. \<open>Map.get\<close> of an absent key is \<open>undefined\<close>, the \<open>None\<close> of a HOL map.
\<close>

datatype jsnum = Num int | NaN

text \<open>\<open>(activeConnections.get(ip) || 0) + 1\<close>: \<open>undefined\<close>, \<open>0\<close> and \<open>NaN\<close> are falsy.\<close>

fun or_zero_plus_one :: "jsnum option \<Rightarrow> jsnum" where
  "or_zero_plus_one None = Num 1"
| "or_zero_plus_one (Some NaN) = Num 1"
| "or_zero_plus_one (Some (Num n)) = (if n = 0 then Num (0 + 1) else Num (n + 1))"

text \<open>\<open>x > c\<close> and \<open>x <= c\<close> on a looked-up count: both are false on \<open>undefined\<close> and \<open>NaN\<close>.\<close>

fun js_gt :: "jsnum option \<Rightarrow> int \<Rightarrow> bool" where
  "js_gt (Some (Num n)) c = (n > c)"
| "js_gt _ c = False"

fun js_le :: "jsnum option \<Rightarrow> int \<Rightarrow> bool" where
  "js_le (Some (Num n)) c = (n \<le> c)"
| "js_le _ c = False"

text \<open>\<open>x - 1\<close> and \<open>x === 0\<close> on a looked-up count.\<close>

fun js_minus_one :: "jsnum option \<Rightarrow> jsnum" where
  "js_minus_one (Some (Num n)) = Num (n - 1)"
| "js_minus_one _ = NaN"

fun js_is_zero :: "jsnum option \<Rightarrow> bool" where
  "js_is_zero (Some (Num n)) = (n = 0)"
| "js_is_zero _ = False"

definition MAX_CONNECTIONS_PER_IP :: int where
  "MAX_CONNECTIONS_PER_IP = 50"

definition MAX_QUEUE_SIZE :: nat where
  "MAX_QUEUE_SIZE = 400"

text \<open>
  The two module-level maps of server.js. A queue holds the \<open>Date.now()\<close> values pushed on
  connection events, oldest first, in milliseconds.
\<close>

record tracker =
  activeConnections :: "string \<rightharpoonup> jsnum"
  requestQueue :: "string \<rightharpoonup> int list"

definition tracker_init :: tracker where
  "tracker_init = \<lparr>activeConnections = Map.empty, requestQueue = Map.empty\<rparr>"

text \<open>\<open>socket.remoteAddress || '0.0.0.0'\<close>: \<open>undefined\<close> and the empty string are falsy.\<close>

fun socket_ip :: "string option \<Rightarrow> string" where
  "socket_ip None = ''0.0.0.0''"
| "socket_ip (Some a) = (if a = [] then ''0.0.0.0'' else a)"

datatype socket_action = Destroy | Keep

text \<open>
  The body of the \<open>'connection'\<close> listener of server.js, in the order of its statements:
  count the connection, create the queue if absent, push \<open>Date.now()\<close> (\<open>pushed\<close>), test the two
  limits, and only then read \<open>Date.now()\<close> again (\<open>now\<close>) and shift the stale front entries.
  The listener writes nothing to the socket: what it does to it is the \<open>socket_action\<close>.
\<close>

definition on_connection :: "tracker \<Rightarrow> string option \<Rightarrow> int \<Rightarrow> int \<Rightarrow> tracker \<times> socket_action" where
  "on_connection s remoteAddress pushed now =
     (let ip = socket_ip remoteAddress;
          ac = (activeConnections s)(ip \<mapsto> or_zero_plus_one (activeConnections s ip));
          queue = (case requestQueue s ip of None \<Rightarrow> [] | Some q \<Rightarrow> q) @ [pushed];
          act = (if js_gt (ac ip) MAX_CONNECTIONS_PER_IP \<or> length queue > MAX_QUEUE_SIZE
                 then Destroy else Keep);
          queue' = dropWhile (\<lambda>t. t < now - 60000) queue
      in (\<lparr>activeConnections = ac, requestQueue = (requestQueue s)(ip \<mapsto> queue')\<rparr>, act))"

text \<open>The \<open>'close'\<close> listener of server.js; \<open>ip\<close> is the address its closure captured.\<close>

definition on_close :: "tracker \<Rightarrow> string \<Rightarrow> tracker" where
  "on_close s ip =
     (let count = activeConnections s ip
      in if js_le count 1
         then s\<lparr>activeConnections := (activeConnections s)(ip := None)\<rparr>
         else s\<lparr>activeConnections := (activeConnections s)(ip \<mapsto> js_minus_one count)\<rparr>)"

text \<open>
  middleware.js keeps the count only, keyed by \<open>socket.remoteAddress\<close> as it is (possibly
  \<open>undefined\<close>), with the limit 10 written in the test.
\<close>

type_synonym mw_tracker = "string option \<rightharpoonup> jsnum"

definition mw_on_connection :: "mw_tracker \<Rightarrow> string option \<Rightarrow> mw_tracker \<times> socket_action" where
  "mw_on_connection m ip =
     (let m' = m(ip \<mapsto> or_zero_plus_one (m ip))
      in (m', if js_gt (m' ip) 10 then Destroy else Keep))"

definition mw_on_close :: "mw_tracker \<Rightarrow> string option \<Rightarrow> mw_tracker" where
  "mw_on_close m ip =
     (let m' = m(ip \<mapsto> js_minus_one (m ip))
      in if js_is_zero (m' ip) then m'(ip := None) else m')"

text \<open>
  Socket lifecycle events as the listeners see them. \<open>Opened a pushed now\<close> is a new connection
  whose \<open>remoteAddress\<close> is \<open>a\<close>, with the two clock readings of the listener; \<open>Closed a\<close> is the
  \<open>'close'\<close> event of a socket whose \<open>remoteAddress\<close> was \<open>a\<close>.
\<close>

datatype event = Opened "string option" int int | Closed "string option"

fun step :: "tracker \<Rightarrow> event \<Rightarrow> tracker" where
  "step s (Opened a pushed now) = fst (on_connection s a pushed now)"
| "step s (Closed a) = on_close s (socket_ip a)"

fun mw_step :: "mw_tracker \<Rightarrow> event \<Rightarrow> mw_tracker" where
  "mw_step m (Opened a pushed now) = fst (mw_on_connection m a)"
| "mw_step m (Closed a) = mw_on_close m a"

definition run_events :: "tracker \<Rightarrow> event list \<Rightarrow> tracker" where
  "run_events s evs = foldl step s evs"

definition mw_run_events :: "mw_tracker \<Rightarrow> event list \<Rightarrow> mw_tracker" where
  "mw_run_events m evs = foldl mw_step m evs"

text \<open>
  The \<open>'close'\<close> listener is registered inside the \<open>'connection'\<close> listener, once per socket, and a
  socket closes once. So a trace of events is one where every \<open>Closed a\<close> ends a socket that an
  earlier \<open>Opened a\<close> began: \<open>open_sockets\<close> is the multiset of sockets still open, as a list.
\<close>

fun open_after :: "string option list \<Rightarrow> event \<Rightarrow> string option list" where
  "open_after os (Opened a pushed now) = a # os"
| "open_after os (Closed a) = remove1 a os"

definition open_sockets :: "event list \<Rightarrow> string option list" where
  "open_sockets evs = foldl open_after [] evs"

fun lifecycle_from :: "string option list \<Rightarrow> event list \<Rightarrow> bool" where
  "lifecycle_from os [] = True"
| "lifecycle_from os (Opened a pushed now # evs) = lifecycle_from (a # os) evs"
| "lifecycle_from os (Closed a # evs) = (a \<in> set os \<and> lifecycle_from (remove1 a os) evs)"

definition lifecycle :: "event list \<Rightarrow> bool" where
  "lifecycle evs = lifecycle_from [] evs"

text \<open>What the map holds for a key with \<open>k\<close> open sockets: nothing for none, else the count.\<close>

definition stored_count :: "nat \<Rightarrow> jsnum option" where
  "stored_count k = (if k = 0 then None else Some (Num (int k)))"

text \<open>The queue of a key as the listener reads it (\<open>[]\<close> right after \<open>requestQueue.set(ip, [])\<close>).\<close>

definition queue_of :: "tracker \<Rightarrow> string \<Rightarrow> int list" where
  "queue_of s ip = (case requestQueue s ip of None \<Rightarrow> [] | Some q \<Rightarrow> q)"

text \<open>A client that connects and disconnects \<open>n\<close> times in the same millisecond.\<close>

fun churn :: "string option \<Rightarrow> nat \<Rightarrow> event list" where
  "churn a 0 = []"
| "churn a (Suc n) = churn a n @ [Opened a 0 0, Closed a]"

section \<open>Path whitelist (server.js, \<open>allowedPatterns\<close>)\<close>

text \<open>
  The whitelist is a list of regular expressions, each anchored with \<open>^\<close> and \<open>$\<close> and without
  flags, so \<open>pattern.test(path)\<close> asks whether the whole path is in the pattern's language.
  The patterns use literal characters, \<open>.\<close>, \<open>+\<close>, alternation and sequence; they are matched
  here with derivatives. \<open>req.path\<close> is a string of one-byte code units, a \<open>string\<close> of HOL;
  \<open>.\<close> matches any of them but the line terminators.
\<close>

datatype rexp =
    RNone
  | REps
  | RChar char
  | RAny
  | RAlt rexp rexp
  | RSeq rexp rexp
  | RStar rexp

definition line_terminator :: "char \<Rightarrow> bool" where
  "line_terminator c = (c = CHR 0x0A \<or> c = CHR 0x0D)"

fun nullable :: "rexp \<Rightarrow> bool" where
  "nullable RNone = False"
| "nullable REps = True"
| "nullable (RChar c) = False"
| "nullable RAny = False"
| "nullable (RAlt r s) = (nullable r \<or> nullable s)"
| "nullable (RSeq r s) = (nullable r \<and> nullable s)"
| "nullable (RStar r) = True"

fun deriv :: "char \<Rightarrow> rexp \<Rightarrow> rexp" where
  "deriv c RNone = RNone"
| "deriv c REps = RNone"
| "deriv c (RChar d) = (if c = d then REps else RNone)"
| "deriv c RAny = (if line_terminator c then RNone else REps)"
| "deriv c (RAlt r s) = RAlt (deriv c r) (deriv c s)"
| "deriv c (RSeq r s) =
     (if nullable r then RAlt (RSeq (deriv c r) s) (deriv c s) else RSeq (deriv c r) s)"
| "deriv c (RStar r) = RSeq (deriv c r) (RStar r)"

fun regex_test :: "rexp \<Rightarrow> string \<Rightarrow> bool" where
  "regex_test r [] = nullable r"
| "regex_test r (c # cs) = regex_test (deriv c r) cs"

fun lit :: "string \<Rightarrow> rexp" where
  "lit [] = REps"
| "lit (c # cs) = RSeq (RChar c) (lit cs)"

definition plus :: "rexp \<Rightarrow> rexp" where
  "plus r = RSeq r (RStar r)"

fun alts :: "rexp list \<Rightarrow> rexp" where
  "alts [] = RNone"
| "alts (r # rs) = RAlt r (alts rs)"

definition allowedPatterns :: "rexp list" where
  "allowedPatterns =
     [ lit ''/'',
       lit ''/index.html'',
       lit ''/noticias.html'',
       lit ''/eventos.html'',
       lit ''/servicios.html'',
       lit ''/empresas.html'',
       RSeq (lit ''/api/'') (plus RAny),
       RSeq (lit ''/assets/'') (RSeq (plus RAny) (RSeq (lit ''.'')
         (alts (map lit [''css'', ''js'', ''png'', ''jpg'', ''jpeg'', ''gif'', ''svg'',
                         ''woff'', ''woff2'', ''ttf'', ''eot'', ''ico''])))),
       RSeq (lit ''/js/'') (RSeq (plus RAny) (lit ''.js'')),
       RSeq (lit ''/css/'') (RSeq (plus RAny) (lit ''.css'')),
       lit ''/favicon.ico'' ]"

definition isAllowed :: "string \<Rightarrow> bool" where
  "isAllowed p = list_ex (\<lambda>pattern. regex_test pattern p) allowedPatterns"

section \<open>JavaScript values\<close>

text \<open>
  Strings that come from a JSON body or from the database are sequences of UTF-16 code
  units, kept as numbers; \<open>js\<close> writes a literal of the source as such a string. Numbers are
  integers here: the handlers only test them for truthiness.
\<close>

type_synonym jsstring = "nat list"

definition js :: "string \<Rightarrow> jsstring" where
  "js s = map of_char s"

datatype jsval =
    JUndefined
  | JNull
  | JBool bool
  | JNumber int
  | JString jsstring
  | JBuffer "nat list"
  | JArray "jsval list"
  | JObject "(jsstring \<times> jsval) list"

type_synonym row = "(jsstring \<times> jsval) list"

fun truthy :: "jsval \<Rightarrow> bool" where
  "truthy JUndefined = False"
| "truthy JNull = False"
| "truthy (JBool b) = b"
| "truthy (JNumber n) = (n \<noteq> 0)"
| "truthy (JString s) = (s \<noteq> [])"
| "truthy (JBuffer b) = True"
| "truthy (JArray xs) = True"
| "truthy (JObject fs) = True"

text \<open>\<open>typeof v === 'string'\<close>.\<close>

fun is_string :: "jsval \<Rightarrow> bool" where
  "is_string (JString s) = True"
| "is_string _ = False"

text \<open>Property read \<open>obj.k\<close> on a row or a parsed object: \<open>undefined\<close> when absent.\<close>

definition field :: "row \<Rightarrow> jsstring \<Rightarrow> jsval" where
  "field fs k = (case map_of fs k of None \<Rightarrow> JUndefined | Some v \<Rightarrow> v)"

text \<open>\<open>{...obj, k: v}\<close>: the key keeps its place when present and is added last otherwise.\<close>

fun spread_set :: "row \<Rightarrow> jsstring \<Rightarrow> jsval \<Rightarrow> row" where
  "spread_set [] k v = [(k, v)]"
| "spread_set ((k', v') # fs) k v =
     (if k' = k then (k, v) # fs else (k', v') # spread_set fs k v)"

text \<open>
  \<open>String.prototype.trim\<close> strips the WhiteSpace and LineTerminator code units of ECMAScript
  from both ends.
\<close>

definition is_whitespace :: "nat \<Rightarrow> bool" where
  "is_whitespace u =
     (u \<in> {9, 10, 11, 12, 13, 32, 160, 5760, 8232, 8233, 8239, 8287, 12288, 65279}
      \<or> (8192 \<le> u \<and> u \<le> 8202))"

definition trim :: "jsstring \<Rightarrow> jsstring" where
  "trim s = rev (dropWhile is_whitespace (rev (dropWhile is_whitespace s)))"

section \<open>Requests, responses and the Express dispatch\<close>

datatype http_method = GET | HEAD | POST | OPTIONS | OtherMethod string

text \<open>
  What the handlers read from a request. \<open>req_ip\<close> is the client identity the rate limiter
  keys on, \<open>req_arrival\<close> the time the request arrives in milliseconds, \<open>req_host\<close> the \<open>Host\<close>
  header (\<open>req.headers.host\<close>) and \<open>req_hostname\<close> Express's \<open>req.hostname\<close>.
  \<open>req_body_size\<close> is the size in bytes of the body sent, and \<open>req_parsed\<close> the value a body
  parser puts in \<open>req.body\<close> when it accepts the body (\<open>{}\<close> when there is nothing to parse).
\<close>

record request =
  req_method :: http_method
  req_path :: string
  req_ip :: string
  req_arrival :: int
  req_host :: "string option"
  req_hostname :: string
  req_body_size :: nat
  req_parsed :: jsval

datatype body = Text string | Json jsval

text \<open>
  A response as the code writes it: the status, the value given to \<open>res.send\<close> (\<open>Text\<close>) or
  \<open>res.json\<close> (\<open>Json\<close>), and the headers set with \<open>res.setHeader\<close>. \<open>via_send_wrapper\<close> tells
  that the response was written after the templating middleware replaced \<open>res.send\<close>: its
  wrapper substitutes \<open>{{SERVER}}\<close> and \<open>{{PORT}}\<close> in a serialized body that includes
  \<open><!DOCTYPE html>\<close>. The body kept here is the value the handler passed.
\<close>

record response =
  status :: nat
  body :: body
  headers :: "(string \<times> string) list"
  via_send_wrapper :: bool

datatype route =
    Config
  | GetPresentacion
  | GetNoticiasDestacadas
  | GetServices
  | GetPreguntasFrecuentes
  | GetEmpresas
  | GetEmpresasDetails
  | GetService
  | GetEventos
  | GetNoticias
  | GetNoticia
  | Query

datatype stage =
    Cors
  | Helmet
  | SecurityHeaders
  | Whitelist
  | TooBusy
  | JsonParser
  | UrlencodedParser
  | RateLimiter
  | Timeout
  | TimeoutCheck
  | HtmlTemplate
  | Static string
  | Route route
  | ErrorHandler

text \<open>Errors given to \<open>next(err)\<close>: an HTTP error of a library, or an exception thrown.\<close>

datatype js_error = HttpError nat | TypeError

datatype db_error = DbError jsstring

datatype static_result = Served | Fallthrough | Failed js_error

text \<open>
  What the packages outside this repository decide, one record for one request:
  \<^item> \<open>cors_answers\<close>: \<open>cors()\<close> ends the request itself (a preflight) instead of calling \<open>next\<close>;
  \<^item> \<open>toobusy\<close>: the value of \<open>toobusy()\<close>;
  \<^item> \<open>timedout\<close>: the value of \<open>req.timedout\<close> when the check after \<open>timeout('10s')\<close> reads it;
  \<^item> \<open>static_file\<close>: what \<open>express.static\<close> mounted at a path does with the request;
  \<^item> \<open>match_mount\<close>, \<open>match_route\<close>: Express's path matching for \<open>app.use(path, \<dots>)\<close> and for
    \<open>app.get(path, \<dots>)\<close>, the latter giving the values of the \<open>:name\<close> parameters;
  \<^item> \<open>pool_query\<close>: \<open>pool.query(text, values)\<close>, the rows or the error it rejects with;
  \<^item> \<open>toString_base64\<close>: \<open>v.toString('base64')\<close>, \<open>None\<close> when it throws;
  \<^item> \<open>env_PORT\<close>: \<open>process.env.PORT\<close>.
\<close>

record env =
  cors_answers :: "request \<Rightarrow> bool"
  toobusy :: bool
  timedout :: bool
  static_file :: "string \<Rightarrow> request \<Rightarrow> static_result"
  match_mount :: "string \<Rightarrow> string \<Rightarrow> bool"
  match_route :: "string \<Rightarrow> string \<Rightarrow> jsstring list option"
  pool_query :: "jsstring \<Rightarrow> jsval list \<Rightarrow> db_error + row list"
  toString_base64 :: "jsval \<Rightarrow> jsval option"
  env_PORT :: "string option"

text \<open>
  The rate limiter's store: per client key, the requests counted in the current window and
  the time the window began.
\<close>

type_synonym rate_store = "string \<rightharpoonup> nat \<times> int"

text \<open>
  What a request carries through the chain: the headers set so far, \<open>req.body\<close>, the rate
  limiter's store, and three logs for the claims: the queries given to the pool, the
  layers entered, and whether \<open>res.send\<close> has been replaced.
\<close>

record ctx =
  res_headers :: "(string \<times> string) list"
  req_body :: jsval
  rate_store :: rate_store
  db_log :: "(jsstring \<times> jsval list) list"
  executed :: "stage list"
  send_patched :: bool

definition new_ctx :: "rate_store \<Rightarrow> ctx" where
  "new_ctx store = \<lparr>res_headers = [], req_body = JUndefined, rate_store = store,
                    db_log = [], executed = [], send_patched = False\<rparr>"

text \<open>
  A layer ends in one of four ways: \<open>next()\<close>, \<open>next(err)\<close>, a response written by the code of
  this repository (or with its configured values), or a response a library writes itself.
\<close>

datatype outcome =
    Next ctx
  | NextErr js_error ctx
  | Send response ctx
  | LibraryEnds ctx

datatype layer_fn =
    Middleware "env \<Rightarrow> request \<Rightarrow> ctx \<Rightarrow> outcome"
  | ErrorMiddleware "js_error \<Rightarrow> env \<Rightarrow> request \<Rightarrow> ctx \<Rightarrow> outcome"

datatype layer = Layer stage "env \<Rightarrow> request \<Rightarrow> bool" layer_fn

datatype result = Sent stage response | ByLibrary stage | Unhandled "js_error option"

text \<open>
  Express runs the layers in the order of registration. Without a pending error it skips
  the four-argument (error) layers and the layers whose path or method does not match;
  after \<open>next(err)\<close> it skips every layer but the matching error layers. When the list is
  exhausted the request is left to Express's own final handler.
\<close>

fun dispatch :: "env \<Rightarrow> request \<Rightarrow> layer list \<Rightarrow> js_error option \<Rightarrow> ctx \<Rightarrow> result \<times> ctx" where
  "dispatch e r [] pending c = (Unhandled pending, c)"
| "dispatch e r (Layer st applies (Middleware f) # ls) None c =
     (if applies e r
      then (case f e r (c\<lparr>executed := executed c @ [st]\<rparr>) of
              Next c' \<Rightarrow> dispatch e r ls None c'
            | NextErr x c' \<Rightarrow> dispatch e r ls (Some x) c'
            | Send resp c' \<Rightarrow> (Sent st resp, c')
            | LibraryEnds c' \<Rightarrow> (ByLibrary st, c'))
      else dispatch e r ls None c)"
| "dispatch e r (Layer st applies (Middleware f) # ls) (Some x) c = dispatch e r ls (Some x) c"
| "dispatch e r (Layer st applies (ErrorMiddleware f) # ls) None c = dispatch e r ls None c"
| "dispatch e r (Layer st applies (ErrorMiddleware f) # ls) (Some x) c =
     (if applies e r
      then (case f x e r (c\<lparr>executed := executed c @ [st]\<rparr>) of
              Next c' \<Rightarrow> dispatch e r ls None c'
            | NextErr y c' \<Rightarrow> dispatch e r ls (Some y) c'
            | Send resp c' \<Rightarrow> (Sent st resp, c')
            | LibraryEnds c' \<Rightarrow> (ByLibrary st, c'))
      else dispatch e r ls (Some x) c)"

definition always :: "env \<Rightarrow> request \<Rightarrow> bool" where
  "always e r = True"

definition mounted :: "string \<Rightarrow> env \<Rightarrow> request \<Rightarrow> bool" where
  "mounted p e r = match_mount e p (req_path r)"

text \<open>\<open>app.get\<close> routes also answer \<open>HEAD\<close> in Express.\<close>

definition get_route :: "string \<Rightarrow> env \<Rightarrow> request \<Rightarrow> bool" where
  "get_route p e r = ((req_method r = GET \<or> req_method r = HEAD) \<and> match_route e p (req_path r) \<noteq> None)"

definition post_route :: "string \<Rightarrow> env \<Rightarrow> request \<Rightarrow> bool" where
  "post_route p e r = (req_method r = POST \<and> match_route e p (req_path r) \<noteq> None)"

text \<open>\<open>req.params.name\<close> of a route with one parameter.\<close>

definition route_param :: "env \<Rightarrow> string \<Rightarrow> request \<Rightarrow> jsval" where
  "route_param e p r =
     (case match_route e p (req_path r) of
        Some (v # vs) \<Rightarrow> JString v
      | _ \<Rightarrow> JUndefined)"

text \<open>\<open>res.status(n).send(text)\<close> and \<open>res.status(n).json(value)\<close>.\<close>

definition respond :: "ctx \<Rightarrow> nat \<Rightarrow> body \<Rightarrow> response" where
  "respond c n b = \<lparr>status = n, body = b, headers = res_headers c,
                    via_send_wrapper = send_patched c\<rparr>"

definition error_json :: "string \<Rightarrow> body" where
  "error_json msg = Json (JObject [(js ''error'', JString (js msg))])"

text \<open>\<open>res.setHeader(name, value)\<close> replaces the header when it is already set.\<close>

definition setHeader :: "string \<Rightarrow> string \<Rightarrow> ctx \<Rightarrow> ctx" where
  "setHeader name v c = c\<lparr>res_headers := AList.update name v (res_headers c)\<rparr>"

section \<open>The gates of server.js and middleware.js\<close>

text \<open>
  \<open>cors()\<close> is a library middleware: whether it ends the request itself or calls \<open>next\<close> is
  the parameter \<open>cors_answers\<close>. Its headers are not modelled.
\<close>

definition cors :: "env \<Rightarrow> request \<Rightarrow> ctx \<Rightarrow> outcome" where
  "cors e r c = (if cors_answers e r then LibraryEnds c else Next c)"

text \<open>
  Modelled from the spec: \<open>helmet()\<close>, whose code is not under src/. The spec: security
  headers are set unconditionally on the outgoing response; the gate never blocks. Its
  headers are not modelled.
\<close>

definition helmet :: "env \<Rightarrow> request \<Rightarrow> ctx \<Rightarrow> outcome" where
  "helmet e r c = Next c"

text \<open>The security-headers middleware of server.js (lines 29-35) and its policy string.\<close>

definition csp :: string where
  "csp = ''default-src 'self'; script-src 'self' 'unsafe-inline'; style-src 'self' 'unsafe-inline' https://fonts.googleapis.com; font-src 'self' https://fonts.gstatic.com; img-src 'self' data: https:; connect-src 'self'; frame-src https://*.google.com https://www.google.com''"

definition security_headers :: "env \<Rightarrow> request \<Rightarrow> ctx \<Rightarrow> outcome" where
  "security_headers e r c =
     Next (setHeader ''Content-Security-Policy'' csp (setHeader ''X-Frame-Options'' ''SAMEORIGIN'' c))"

text \<open>The whitelist middleware of server.js (lines 38-72).\<close>

definition whitelist :: "env \<Rightarrow> request \<Rightarrow> ctx \<Rightarrow> outcome" where
  "whitelist e r c =
     (if isAllowed (req_path r) then Next c
      else Send (respond c 403 (Text ''Access Forbidden'')) c)"

text \<open>The load-shedding middleware of server.js (lines 76-82); \<open>toobusy()\<close> is a parameter.\<close>

definition load_shedding :: "env \<Rightarrow> request \<Rightarrow> ctx \<Rightarrow> outcome" where
  "load_shedding e r c =
     (if toobusy e then Send (respond c 503 (error_json ''Server is too busy. Please try again later.'')) c
      else Next c)"

text \<open>The option \<open>limit: '1kb'\<close> given to both body parsers, in bytes.\<close>

definition body_limit :: nat where
  "body_limit = 1024"

text \<open>
  Modelled from the spec: the body parsers \<open>express.json({ limit: '1kb' })\<close> and
  \<open>express.urlencoded({ extended: true, limit: '1kb' })\<close>, whose code is not under src/. The
  spec: bodies exceeding a fixed cap (1 KB) are rejected at the parsing layer with a
  413/400-class failure, before handler code sees the body. A middleware fails by giving
  its error to \<open>next\<close>; the error carries the status 413. An accepted body is put in
  \<open>req.body\<close>.
\<close>

definition body_parser :: "nat \<Rightarrow> env \<Rightarrow> request \<Rightarrow> ctx \<Rightarrow> outcome" where
  "body_parser limit e r c =
     (if req_body_size r > limit then NextErr (HttpError 413) c
      else Next (c\<lparr>req_body := req_parsed r\<rparr>))"

record limiter_config =
  windowMs :: int
  limit_max :: nat
  message :: string

text \<open>The options given to \<open>rateLimit\<close> in server.js and in middleware.js.\<close>

definition limiter :: limiter_config where
  "limiter = \<lparr>windowMs = 1 * 60 * 1000, limit_max = 500,
              message = ''Too many requests from this IP, please try again later.''\<rparr>"

definition mw_limiter :: limiter_config where
  "mw_limiter = \<lparr>windowMs = 1 * 60 * 1000, limit_max = 100,
                 message = ''Too many requests, please try again later.''\<rparr>"

text \<open>
  Modelled from the spec: the middleware that \<open>rateLimit(options)\<close> of express-rate-limit
  returns, whose code is not under src/. The spec: it tracks the request count per client
  IP within a 1-minute window (\<open>requestCount\<close> and \<open>windowStart\<close>, reset every window);
  exceeding the configured ceiling terminates the request with 429, otherwise the counter
  is incremented and the request passes through.
\<close>

definition rate_limit :: "limiter_config \<Rightarrow> rate_store \<Rightarrow> string \<Rightarrow> int \<Rightarrow> bool \<times> rate_store" where
  "rate_limit cfg store key now =
     (let (requestCount, windowStart) =
            (case store key of
               None \<Rightarrow> (0, now)
             | Some (n, t0) \<Rightarrow> if now < t0 + windowMs cfg then (n, t0) else (0, now))
      in if requestCount \<ge> limit_max cfg
         then (True, store(key \<mapsto> (requestCount, windowStart)))
         else (False, store(key \<mapsto> (requestCount + 1, windowStart))))"

text \<open>
  Modelled from the spec: the answer of that middleware. The 429 response carries the
  configured \<open>message\<close>, a string in both files, as the body; the rate-limit headers of
  \<open>standardHeaders\<close> are not modelled.
\<close>

definition rate_limiter :: "limiter_config \<Rightarrow> env \<Rightarrow> request \<Rightarrow> ctx \<Rightarrow> outcome" where
  "rate_limiter cfg e r c =
     (case rate_limit cfg (rate_store c) (req_ip r) (req_arrival r) of
        (True, store') \<Rightarrow>
          Send (respond c 429 (Text (message cfg))) (c\<lparr>rate_store := store'\<rparr>)
      | (False, store') \<Rightarrow> Next (c\<lparr>rate_store := store'\<rparr>))"




text \<open>
  Modelled from the spec: \<open>timeout('10s')\<close> of connect-timeout, whose code is not under src/.
  The spec: a wall-clock budget starts when the request enters the pipeline. The layer
  itself passes the request on; whether the request is marked timed out when the next
  layer reads \<open>req.timedout\<close> is the parameter \<open>timedout\<close>.
\<close>

definition timeout :: "env \<Rightarrow> request \<Rightarrow> ctx \<Rightarrow> outcome" where
  "timeout e r c = Next c"

text \<open>The check of server.js and middleware.js that follows: \<open>if (!req.timedout) next()\<close>.\<close>

definition timeout_check :: "env \<Rightarrow> request \<Rightarrow> ctx \<Rightarrow> outcome" where
  "timeout_check e r c =
     (if \<not> timedout e then Next c
      else Send (respond c 408 (error_json ''Request timed out. Please try again.'')) c)"

text \<open>
  The templating middleware of server.js replaces \<open>res.send\<close> by a wrapper and calls \<open>next\<close>.
\<close>

definition html_template :: "env \<Rightarrow> request \<Rightarrow> ctx \<Rightarrow> outcome" where
  "html_template e r c = Next (c\<lparr>send_patched := True\<rparr>)"

text \<open>\<open>express.static(dir)\<close>: a library middleware, decided by the parameter \<open>static_file\<close>.\<close>

definition static :: "string \<Rightarrow> env \<Rightarrow> request \<Rightarrow> ctx \<Rightarrow> outcome" where
  "static dir e r c =
     (case static_file e dir r of
        Served \<Rightarrow> LibraryEnds c
      | Fallthrough \<Rightarrow> Next c
      | Failed x \<Rightarrow> NextErr x c)"

text \<open>The error-handling middleware, registered last in both files.\<close>

definition error_handler :: "js_error \<Rightarrow> env \<Rightarrow> request \<Rightarrow> ctx \<Rightarrow> outcome" where
  "error_handler err e r c = Send (respond c 500 (error_json ''Internal server error.'')) c"

section \<open>Route handlers\<close>

text \<open>
  The SQL texts are the template literals of the source with each run of line breaks and
  indentation written as one space; the model only hands them to \<open>pool_query\<close>.
\<close>

definition sql_presentacion :: jsstring where
  "sql_presentacion = js ''SELECT id, titulo, qsomos, objetivo, qhacemos, clogramos, descripcion, imagen, img FROM sitio.presentacion''"

definition sql_noticias_destacadas :: jsstring where
  "sql_noticias_destacadas = js ''SELECT id, titulo, noticia, imagen, link FROM sitio.noticias WHERE destacar = true ORDER BY id DESC''"

definition sql_services :: jsstring where
  "sql_services = js ''SELECT id, nombre, descripcion, img, link FROM sitio.productos_servicios ORDER BY id ASC''"

definition sql_preguntas :: jsstring where
  "sql_preguntas = js ''SELECT id, pregunta, respuesta, fecha FROM sitio.preguntas ORDER BY id ASC''"

definition sql_empresas :: jsstring where
  "sql_empresas = js ''SELECT empresa FROM sitio.empresas ORDER BY id''"

definition sql_empresas_details :: jsstring where
  "sql_empresas_details = js ''SELECT id, empresa, descripcion, direccion, telf, mail, sitio, logo, especializada FROM sitio.empresas ORDER BY especializada DESC, empresa ASC''"

definition sql_service_by_name :: jsstring where
  "sql_service_by_name = js ''SELECT id, nombre, descripcion, contacto, img, img2 FROM sitio.productos_servicios WHERE nombre = $1''"

definition sql_product_lines :: jsstring where
  "sql_product_lines = js ''SELECT id, titulo, descripcion, img FROM sitio.lineaprod WHERE servicioid = $1 ORDER BY id ASC''"

definition sql_eventos :: jsstring where
  "sql_eventos = js ''SELECT id, titulo, TO_CHAR(fechai, 'DD/MM/YYYY') as fechai, TO_CHAR(fechaf, 'DD/MM/YYYY') as fechaf, descripcion, link, descarga, lugar, encode(imagen, 'base64') as imagen FROM sitio.eventos ORDER BY fechai DESC;''"

definition sql_noticias :: jsstring where
  "sql_noticias = js ''SELECT id, titulo, noticia, link, destacar, encode(imagen, 'base64') as imagen, TO_CHAR(fecha, 'DD/MM/YYYY') as fecha FROM sitio.noticias ORDER BY fecha DESC LIMIT 3;''"

definition sql_noticia_by_id :: jsstring where
  "sql_noticia_by_id = js ''SELECT id, titulo, noticia, link, destacar, encode(imagen, 'base64') as imagen, TO_CHAR(fecha, 'DD/MM/YYYY') as fecha FROM sitio.noticias WHERE id = $1;''"

text \<open>\<open>await pool.query(text, values)\<close>: the call is logged, then answered by the pool.\<close>

definition logged :: "ctx \<Rightarrow> jsstring \<Rightarrow> jsval list \<Rightarrow> ctx" where
  "logged c text vals = c\<lparr>db_log := db_log c @ [(text, vals)]\<rparr>"

definition rows_json :: "row list \<Rightarrow> body" where
  "rows_json rows = Json (JArray (map JObject rows))"

text \<open>
  The handlers that run one fixed query and answer with its rows, or with 500 and their
  own message when the query rejects.
\<close>

definition get_rows :: "jsstring \<Rightarrow> string \<Rightarrow> env \<Rightarrow> request \<Rightarrow> ctx \<Rightarrow> outcome" where
  "get_rows text failure e r c =
     (let c1 = logged c text []
      in case pool_query e text [] of
           Inr rows \<Rightarrow> Send (respond c1 200 (rows_json rows)) c1
         | Inl err \<Rightarrow> Send (respond c1 500 (error_json failure)) c1)"

text \<open>\<open>/api/config\<close>: \<open>host.includes(':')\<close> throws when there is no \<open>Host\<close> header.\<close>

definition second_of_split :: "string \<Rightarrow> string" where
  "second_of_split h = takeWhile (\<lambda>ch. ch \<noteq> CHR '':'') (tl (dropWhile (\<lambda>ch. ch \<noteq> CHR '':'') h))"

definition get_config :: "env \<Rightarrow> request \<Rightarrow> ctx \<Rightarrow> outcome" where
  "get_config e r c =
     (case req_host r of
        None \<Rightarrow> NextErr TypeError c
      | Some h \<Rightarrow>
          Send (respond c 200 (Json (JObject
            [(js ''server'', JString (js (req_hostname r))),
             (js ''port'', JString (js
                (if CHR '':'' \<in> set h then second_of_split h
                 else (case env_PORT e of None \<Rightarrow> ''8060''
                       | Some pt \<Rightarrow> if pt = [] then ''8060'' else pt)))),
             (js ''apiUrl'', JString (js (''http://'' @ h @ ''/api'')))]))) c)"

text \<open>
  \<open>/api/get-empresas-details\<close>: each row is copied with \<open>logo\<close> replaced by its base64 text,
  or by \<open>null\<close> when it is falsy. An exception in the mapping is caught with the query's.
\<close>

fun encode_logos :: "env \<Rightarrow> row list \<Rightarrow> row list option" where
  "encode_logos e [] = Some []"
| "encode_logos e (company # rest) =
     (case (if truthy (field company (js ''logo''))
            then toString_base64 e (field company (js ''logo''))
            else Some JNull) of
        None \<Rightarrow> None
      | Some v \<Rightarrow>
          (case encode_logos e rest of
             None \<Rightarrow> None
           | Some companies \<Rightarrow> Some (spread_set company (js ''logo'') v # companies)))"

definition get_empresas_details :: "env \<Rightarrow> request \<Rightarrow> ctx \<Rightarrow> outcome" where
  "get_empresas_details e r c =
     (let c1 = logged c sql_empresas_details []
      in case pool_query e sql_empresas_details [] of
           Inl err \<Rightarrow> Send (respond c1 500 (error_json ''Database error.'')) c1
         | Inr rows \<Rightarrow>
             (case encode_logos e rows of
                None \<Rightarrow> Send (respond c1 500 (error_json ''Database error.'')) c1
              | Some companies \<Rightarrow> Send (respond c1 200 (rows_json companies)) c1))"

text \<open>\<open>/api/get-service/:nombre\<close>, given the value of \<open>req.params.nombre\<close>.\<close>

definition get_service_handler :: "env \<Rightarrow> jsval \<Rightarrow> ctx \<Rightarrow> outcome" where
  "get_service_handler e nombre c =
     (let c1 = logged c sql_service_by_name [nombre]
      in case pool_query e sql_service_by_name [nombre] of
           Inl err \<Rightarrow> Send (respond c1 500 (error_json ''Database error.'')) c1
         | Inr [] \<Rightarrow> Send (respond c1 404 (error_json ''Service not found'')) c1
         | Inr (service # others) \<Rightarrow>
             (let c2 = logged c1 sql_product_lines [field service (js ''id'')]
              in case pool_query e sql_product_lines [field service (js ''id'')] of
                   Inl err \<Rightarrow> Send (respond c2 500 (error_json ''Database error.'')) c2
                 | Inr productLines \<Rightarrow>
                     Send (respond c2 200 (Json (JObject
                       [(js ''service'', JObject service),
                        (js ''productLines'', JArray (map JObject productLines))]))) c2))"

definition get_service :: "env \<Rightarrow> request \<Rightarrow> ctx \<Rightarrow> outcome" where
  "get_service e r c = get_service_handler e (route_param e ''/api/get-service/:nombre'' r) c"

text \<open>\<open>/api/get-noticia/:id\<close>.\<close>

definition get_noticia :: "env \<Rightarrow> request \<Rightarrow> ctx \<Rightarrow> outcome" where
  "get_noticia e r c =
     (let ident = route_param e ''/api/get-noticia/:id'' r;
          c1 = logged c sql_noticia_by_id [ident]
      in case pool_query e sql_noticia_by_id [ident] of
           Inl err \<Rightarrow> Send (respond c1 500 (error_json ''Error al obtener la noticia'')) c1
         | Inr [] \<Rightarrow> Send (respond c1 404 (error_json ''Noticia no encontrada'')) c1
         | Inr (noticia # others) \<Rightarrow> Send (respond c1 200 (Json (JObject noticia))) c1)"

text \<open>
  \<open>/api/query\<close>, given the value of \<open>query\<close> destructured from \<open>req.body\<close>. The test is
  \<open>!query || typeof query !== 'string' || query.trim().length === 0\<close>; a value that passes
  it is a string, so the last branch of \<open>query_handler\<close> is never taken.
\<close>

definition invalid_query :: "jsval \<Rightarrow> bool" where
  "invalid_query query =
     (\<not> truthy query \<or> \<not> is_string query
      \<or> (case query of JString s \<Rightarrow> length (trim s) = 0 | _ \<Rightarrow> True))"

definition query_handler :: "env \<Rightarrow> jsval \<Rightarrow> ctx \<Rightarrow> outcome" where
  "query_handler e query c =
     (if invalid_query query then Send (respond c 400 (error_json ''Invalid query.'')) c
      else (case query of
              JString text \<Rightarrow>
                (let c1 = logged c text []
                 in case pool_query e text [] of
                      Inr rows \<Rightarrow> Send (respond c1 200 (rows_json rows)) c1
                    | Inl err \<Rightarrow> Send (respond c1 500 (error_json ''Database error.'')) c1)
            | _ \<Rightarrow> Send (respond c 400 (error_json ''Invalid query.'')) c))"

text \<open>
  \<open>const { query } = req.body\<close> stands before the \<open>try\<close>: on \<open>undefined\<close> or \<open>null\<close> it throws,
  and the handler writes nothing; on a value that is not an object the property is
  \<open>undefined\<close>.
\<close>

definition post_query :: "env \<Rightarrow> request \<Rightarrow> ctx \<Rightarrow> outcome" where
  "post_query e r c =
     (case req_body c of
        JUndefined \<Rightarrow> NextErr TypeError c
      | JNull \<Rightarrow> NextErr TypeError c
      | JObject fs \<Rightarrow> query_handler e (field fs (js ''query'')) c
      | _ \<Rightarrow> query_handler e JUndefined c)"

section \<open>The applications\<close>

text \<open>The routes that server.js and middleware.js share, in the order of registration.\<close>

definition api_routes :: "layer list" where
  "api_routes =
     [ Layer (Route GetPresentacion) (get_route ''/api/get-presentacion'')
         (Middleware (get_rows sql_presentacion ''Database error.'')),
       Layer (Route GetNoticiasDestacadas) (get_route ''/api/get-noticias-destacadas'')
         (Middleware (get_rows sql_noticias_destacadas ''Database error.'')),
       Layer (Route GetServices) (get_route ''/api/get-services'')
         (Middleware (get_rows sql_services ''Database error.'')),
       Layer (Route GetPreguntasFrecuentes) (get_route ''/api/get-preguntas-frecuentes'')
         (Middleware (get_rows sql_preguntas ''Database error.'')),
       Layer (Route GetEmpresas) (get_route ''/api/get-empresas'')
         (Middleware (get_rows sql_empresas ''Database error.'')),
       Layer (Route GetEmpresasDetails) (get_route ''/api/get-empresas-details'')
         (Middleware get_empresas_details),
       Layer (Route GetService) (get_route ''/api/get-service/:nombre'')
         (Middleware get_service),
       Layer (Route GetEventos) (get_route ''/api/get-eventos'')
         (Middleware (get_rows sql_eventos ''Error al obtener los eventos'')),
       Layer (Route GetNoticias) (get_route ''/api/get-noticias'')
         (Middleware (get_rows sql_noticias ''Error al obtener las noticias'')),
       Layer (Route GetNoticia) (get_route ''/api/get-noticia/:id'')
         (Middleware get_noticia),
       Layer (Route Query) (post_route ''/api/query'')
         (Middleware post_query) ]"

text \<open>The layers of server.js that follow the whitelist, and the whole chain.\<close>

definition server_downstream :: "layer list" where
  "server_downstream =
     [ Layer TooBusy always (Middleware load_shedding),
       Layer JsonParser always (Middleware (body_parser body_limit)),
       Layer UrlencodedParser always (Middleware (body_parser body_limit)),
       Layer RateLimiter (mounted ''/api/'') (Middleware (rate_limiter limiter)),
       Layer Timeout always (Middleware timeout),
       Layer TimeoutCheck always (Middleware timeout_check),
       Layer HtmlTemplate always (Middleware html_template),
       Layer (Static ''/assets'') (mounted ''/assets'') (Middleware (static ''assets'')),
       Layer (Static ''/js'') (mounted ''/js'') (Middleware (static ''js'')),
       Layer (Static ''/css'') (mounted ''/css'') (Middleware (static ''css'')),
       Layer (Static ''/'') always (Middleware (static [])),
       Layer (Route Config) (get_route ''/api/config'') (Middleware get_config) ]
     @ api_routes
     @ [ Layer ErrorHandler always (ErrorMiddleware error_handler) ]"

definition server_app :: "layer list" where
  "server_app =
     [ Layer Cors always (Middleware cors),
       Layer SecurityHeaders always (Middleware security_headers),
       Layer Whitelist always (Middleware whitelist) ]
     @ server_downstream"

definition middleware_app :: "layer list" where
  "middleware_app =
     [ Layer Cors always (Middleware cors),
       Layer Helmet always (Middleware helmet),
       Layer JsonParser always (Middleware (body_parser body_limit)),
       Layer UrlencodedParser always (Middleware (body_parser body_limit)),
       Layer RateLimiter (mounted ''/api/'') (Middleware (rate_limiter mw_limiter)),
       Layer Timeout always (Middleware timeout),
       Layer TimeoutCheck always (Middleware timeout_check) ]
     @ api_routes
     @ [ Layer ErrorHandler always (ErrorMiddleware error_handler) ]"

text \<open>One request served by server.js, resp. middleware.js, from a given limiter store.\<close>

definition server :: "env \<Rightarrow> request \<Rightarrow> rate_store \<Rightarrow> result \<times> ctx" where
  "server e r store = dispatch e r server_app None (new_ctx store)"

definition middleware_server :: "env \<Rightarrow> request \<Rightarrow> rate_store \<Rightarrow> result \<times> ctx" where
  "middleware_server e r store = dispatch e r middleware_app None (new_ctx store)"

section \<open>Predicates and sample inputs for the properties\<close>


text \<open>The messages of the \<open>{ error: '\<dots>' }\<close> bodies written in server.js and middleware.js.\<close>

definition error_messages :: "string list" where
  "error_messages =
     [ ''Server is too busy. Please try again later.'',
       ''Request timed out. Please try again.'',
       ''Database error.'',
       ''Service not found'',
       ''Error al obtener los eventos'',
       ''Error al obtener las noticias'',
       ''Noticia no encontrada'',
       ''Error al obtener la noticia'',
       ''Invalid query.'',
       ''Internal server error.'' ]"

definition json_error :: "body \<Rightarrow> bool" where
  "json_error b = list_ex (\<lambda>msg. b = error_json msg) error_messages"

text \<open>
  The shape of an error response (status 400 or more) written at stage \<open>st\<close>: a JSON object
  with the one field \<open>error\<close> and a fixed message, or the whitelist's plain text, or the
  limiter's plain-text \<open>message\<close>.
\<close>

definition error_shape :: "limiter_config \<Rightarrow> stage \<Rightarrow> response \<Rightarrow> bool" where
  "error_shape cfg st resp =
     (status resp \<ge> 400 \<longrightarrow>
        json_error (body resp)
        \<or> (st = Whitelist \<and> status resp = 403 \<and> body resp = Text ''Access Forbidden'')
        \<or> (st = RateLimiter \<and> status resp = 429 \<and> body resp = Text (message cfg)))"

text \<open>Every response a layer can write has the property \<open>P\<close>.\<close>

definition layer_sends :: "(stage \<Rightarrow> response \<Rightarrow> bool) \<Rightarrow> layer \<Rightarrow> bool" where
  "layer_sends P l =
     (case l of
        Layer st applies (Middleware f) \<Rightarrow>
          (\<forall>e r c resp c'. f e r c = Send resp c' \<longrightarrow> P st resp)
      | Layer st applies (ErrorMiddleware f) \<Rightarrow>
          (\<forall>x e r c resp c'. f x e r c = Send resp c' \<longrightarrow> P st resp))"

text \<open>
  Sample inputs. In \<open>example_env\<close> no library ends a request, a mount matches a path prefix,
  a route matches its exact path (the service route takes the last segment as \<open>nombre\<close>), and
  the pool holds one service with two product lines.
\<close>

definition example_service :: row where
  "example_service = [(js ''id'', JNumber 7), (js ''nombre'', JString (js ''Geodesia''))]"

definition example_lines :: "row list" where
  "example_lines = [[(js ''id'', JNumber 1), (js ''titulo'', JString (js ''Redes''))],
                    [(js ''id'', JNumber 2), (js ''titulo'', JString (js ''Catastro''))]]"

definition example_pool :: "jsstring \<Rightarrow> jsval list \<Rightarrow> db_error + row list" where
  "example_pool text vals =
     (if text = sql_service_by_name \<and> vals = [JString (js ''Geodesia'')] then Inr [example_service]
      else if text = sql_product_lines \<and> vals = [JNumber 7] then Inr example_lines
      else if text = js ''SELECT 1 AS one'' then Inr [[(js ''one'', JNumber 1)]]
      else Inr [])"

definition example_env :: env where
  "example_env =
     \<lparr>cors_answers = (\<lambda>r. False), toobusy = False, timedout = False,
      static_file = (\<lambda>dir r. Fallthrough),
      match_mount = (\<lambda>m p. take (length m) p = m),
      match_route = (\<lambda>pat p. if pat = ''/api/get-service/:nombre''
                               then (if take 17 p = ''/api/get-service/'' \<and> 17 < length p
                                     then Some [js (drop 17 p)] else None)
                               else if pat = p then Some [] else None),
      pool_query = example_pool,
      toString_base64 = (\<lambda>v. None),
      env_PORT = None\<rparr>"

definition example_request :: "http_method \<Rightarrow> string \<Rightarrow> nat \<Rightarrow> jsval \<Rightarrow> request" where
  "example_request m p bytes parsed =
     \<lparr>req_method = m, req_path = p, req_ip = ''10.0.0.1'', req_arrival = 1000,
      req_host = Some ''localhost:8060'', req_hostname = ''localhost'',
      req_body_size = bytes, req_parsed = parsed\<rparr>"

section \<open>Properties of the connection tracker\<close>

lemma count_list_remove1:
  "a \<in> set os \<Longrightarrow>
     count_list (map f (remove1 a os)) k = count_list (map f os) k - (if f a = k then 1 else 0)
     \<and> (f a = k \<longrightarrow> 0 < count_list (map f os) k)"
  by (induction os) auto

lemma step_keeps_count:
  assumes inv: "\<forall>ip. activeConnections s ip = stored_count (count_list (map socket_ip os) ip)"
      and ok: "lifecycle_from os [e]"
  shows "activeConnections (step s e) ip
           = stored_count (count_list (map socket_ip (open_after os e)) ip)"
proof (cases e)
  case (Opened a pushed now)
  then show ?thesis using inv
    by (auto simp: on_connection_def Let_def stored_count_def)
next
  case (Closed a)
  with ok have mem: "a \<in> set os" by simp
  from count_list_remove1[OF mem, of socket_ip ip]
       count_list_remove1[OF mem, of socket_ip "socket_ip a"]
  show ?thesis using inv Closed
    by (auto simp: on_close_def Let_def stored_count_def)
qed

lemma mw_step_keeps_count:
  assumes inv: "\<forall>a. m a = stored_count (count_list os a)"
      and ok: "lifecycle_from os [e]"
  shows "mw_step m e a = stored_count (count_list (open_after os e) a)"
proof (cases e)
  case (Opened b pushed now)
  then show ?thesis using inv
    by (auto simp: mw_on_connection_def Let_def stored_count_def)
next
  case (Closed b)
  with ok have mem: "b \<in> set os" by simp
  from count_list_remove1[OF mem, of "\<lambda>x. x" a] count_list_remove1[OF mem, of "\<lambda>x. x" b]
  show ?thesis using inv Closed
    by (auto simp: mw_on_close_def Let_def stored_count_def)
qed

lemma run_keeps_count:
  "lifecycle_from os evs \<Longrightarrow>
   \<forall>ip. activeConnections s ip = stored_count (count_list (map socket_ip os) ip) \<Longrightarrow>
   activeConnections (foldl step s evs) ip
     = stored_count (count_list (map socket_ip (foldl open_after os evs)) ip)"
proof (induction evs arbitrary: s os)
  case Nil
  then show ?case by simp
next
  case (Cons e evs)
  have one: "lifecycle_from os [e]" using Cons.prems(1) by (cases e) auto
  have rest: "lifecycle_from (open_after os e) evs" using Cons.prems(1) by (cases e) auto
  have "\<forall>ip. activeConnections (step s e) ip
          = stored_count (count_list (map socket_ip (open_after os e)) ip)"
    using step_keeps_count[OF Cons.prems(2) one] by blast
  from Cons.IH[OF rest this] show ?case by simp
qed

lemma mw_run_keeps_count:
  "lifecycle_from os evs \<Longrightarrow>
   \<forall>a. m a = stored_count (count_list os a) \<Longrightarrow>
   foldl mw_step m evs a = stored_count (count_list (foldl open_after os evs) a)"
proof (induction evs arbitrary: m os)
  case Nil
  then show ?case by simp
next
  case (Cons e evs)
  have one: "lifecycle_from os [e]" using Cons.prems(1) by (cases e) auto
  have rest: "lifecycle_from (open_after os e) evs" using Cons.prems(1) by (cases e) auto
  have "\<forall>a. mw_step m e a = stored_count (count_list (open_after os e) a)"
    using mw_step_keeps_count[OF Cons.prems(2) one] by blast
  from Cons.IH[OF rest this] show ?case by simp
qed

lemma step_keeps_queue_keys:
  "ip \<in> dom (requestQueue s) \<Longrightarrow> ip \<in> dom (requestQueue (step s e))"
  by (cases e) (auto simp: on_connection_def on_close_def Let_def)

lemma run_keeps_queue_keys:
  "ip \<in> dom (requestQueue s) \<Longrightarrow> ip \<in> dom (requestQueue (foldl step s evs))"
proof (induction evs arbitrary: s)
  case Nil
  then show ?case by simp
next
  case (Cons e evs)
  from Cons.IH[OF step_keeps_queue_keys[OF Cons.prems, of e]] show ?case by simp
qed

lemma churn_round:
  "foldl step \<lparr>activeConnections = Map.empty, requestQueue = [''10.0.0.1'' \<mapsto> replicate n 0]\<rparr>
      [Opened (Some ''10.0.0.1'') 0 0, Closed (Some ''10.0.0.1'')]
     = \<lparr>activeConnections = Map.empty, requestQueue = [''10.0.0.1'' \<mapsto> replicate (Suc n) 0]\<rparr>"
  by (auto simp: on_connection_def on_close_def Let_def fun_eq_iff replicate_append_same)

lemma churn_state:
  "run_events tracker_init (churn (Some ''10.0.0.1'') (Suc n))
     = \<lparr>activeConnections = Map.empty, requestQueue = [''10.0.0.1'' \<mapsto> replicate (Suc n) 0]\<rparr>"
proof (induction n)
  case 0
  show ?case
    by (auto simp: run_events_def tracker_init_def on_connection_def on_close_def
        Let_def fun_eq_iff)
next
  case (Suc n)
  have "run_events tracker_init (churn (Some ''10.0.0.1'') (Suc (Suc n)))
          = foldl step (run_events tracker_init (churn (Some ''10.0.0.1'') (Suc n)))
              [Opened (Some ''10.0.0.1'') 0 0, Closed (Some ''10.0.0.1'')]"
    by (simp add: run_events_def)
  also have "\<dots> = \<lparr>activeConnections = Map.empty,
                      requestQueue = [''10.0.0.1'' \<mapsto> replicate (Suc (Suc n)) 0]\<rparr>"
    unfolding Suc by (rule churn_round)
  finally show ?case .
qed

lemma churn_400:
  "run_events tracker_init (churn (Some ''10.0.0.1'') 400)
     = \<lparr>activeConnections = Map.empty, requestQueue = [''10.0.0.1'' \<mapsto> replicate 400 0]\<rparr>"
proof -
  have "(400::nat) = Suc 399" by simp
  then show ?thesis using churn_state[of 399] by simp
qed

lemma lifecycle_from_append:
  "lifecycle_from os (xs @ ys)
     = (lifecycle_from os xs \<and> lifecycle_from (foldl open_after os xs) ys)"
  by (induction os xs rule: lifecycle_from.induct) auto

lemma churn_open: "foldl open_after os (churn a n) = os"
  by (induction n) auto

lemma churn_lifecycle: "lifecycle (churn a n @ [Opened a pushed now])"
proof -
  have "lifecycle_from [] (churn a n)"
    by (induction n) (auto simp: lifecycle_from_append churn_open)
  then show ?thesis
    by (simp add: lifecycle_def lifecycle_from_append)
qed

text \<open>
  C5 as stated fails. A client at 10.0.0.1 has connected and disconnected 400 times at
  time 0 (a trace the listeners can see, \<open>churn_lifecycle\<close>); 100 seconds later it connects
  once more. Its count is 1 and the pruned queue holds that one timestamp, yet the socket
  is destroyed: the length test reads the queue before the stale entries are shifted out.
\<close>

theorem connection_pruned_queue_counterexample:
  "\<not> (snd (on_connection (run_events tracker_init (churn (Some ''10.0.0.1'') 400))
               (Some ''10.0.0.1'') 100000 100000) = Destroy
      \<longleftrightarrow> js_gt (activeConnections
                   (fst (on_connection (run_events tracker_init (churn (Some ''10.0.0.1'') 400))
                          (Some ''10.0.0.1'') 100000 100000)) ''10.0.0.1'')
                 MAX_CONNECTIONS_PER_IP
          \<or> MAX_QUEUE_SIZE
              < length (queue_of
                   (fst (on_connection (run_events tracker_init (churn (Some ''10.0.0.1'') 400))
                          (Some ''10.0.0.1'') 100000 100000)) ''10.0.0.1''))"
proof -
  have dw: "dropWhile (\<lambda>t. t < (40000::int)) (replicate 400 0 @ [100000]) = [100000]"
    by (simp add: dropWhile_append)
  show ?thesis
    unfolding churn_400
    by (simp add: on_connection_def Let_def MAX_CONNECTIONS_PER_IP_def MAX_QUEUE_SIZE_def
        queue_of_def dw)
qed

text \<open>
  C5, amended: on a connection event from address \<open>a\<close>, server.js counts the connection
  under \<open>socket_ip a\<close>, appends the time to that key's queue, and destroys the socket
  exactly when the new count exceeds \<open>MAX_CONNECTIONS_PER_IP\<close> or the queue as it is after
  the append, before any pruning, is longer than \<open>MAX_QUEUE_SIZE\<close>; the queue it leaves is
  that queue without its longest front run of timestamps older than 60 seconds. The
  listener only destroys or keeps the socket. middleware.js has no queue: it counts the
  connection and destroys exactly when the new count exceeds 10.
\<close>

theorem connection_limits_before_pruning:
  "(case on_connection s a pushed now of (s', act) \<Rightarrow>
      activeConnections s' (socket_ip a) = Some (or_zero_plus_one (activeConnections s (socket_ip a)))
    \<and> (\<exists>stale. queue_of s (socket_ip a) @ [pushed] = stale @ queue_of s' (socket_ip a)
          \<and> (\<forall>t \<in> set stale. t < now - 60000)
          \<and> (\<forall>t rest. queue_of s' (socket_ip a) = t # rest \<longrightarrow> \<not> t < now - 60000))
    \<and> (act = Destroy \<longleftrightarrow>
          js_gt (activeConnections s' (socket_ip a)) MAX_CONNECTIONS_PER_IP
          \<or> MAX_QUEUE_SIZE < length (queue_of s (socket_ip a) @ [pushed])))
  \<and> (case mw_on_connection m a of (m', act) \<Rightarrow>
      m' a = Some (or_zero_plus_one (m a)) \<and> (act = Destroy \<longleftrightarrow> js_gt (m' a) 10))"
proof -
  let ?q = "queue_of s (socket_ip a) @ [pushed]"
  let ?s' = "fst (on_connection s a pushed now)"
  have split: "?q = takeWhile (\<lambda>t. t < now - 60000) ?q @ dropWhile (\<lambda>t. t < now - 60000) ?q"
    by simp
  have stale: "\<forall>t \<in> set (takeWhile (\<lambda>t. t < now - 60000) ?q). t < now - 60000"
    by (auto dest: set_takeWhileD)
  have fresh: "\<forall>t rest. dropWhile (\<lambda>t. t < now - 60000) ?q = t # rest \<longrightarrow> \<not> t < now - 60000"
    by (metis hd_dropWhile list.distinct(1) list.sel(1))
  have q': "queue_of ?s' (socket_ip a) = dropWhile (\<lambda>t. t < now - 60000) ?q"
    by (simp add: on_connection_def Let_def queue_of_def)
  have ex: "\<exists>stale. ?q = stale @ queue_of ?s' (socket_ip a)
          \<and> (\<forall>t \<in> set stale. t < now - 60000)
          \<and> (\<forall>t rest. queue_of ?s' (socket_ip a) = t # rest \<longrightarrow> \<not> t < now - 60000)"
    unfolding q' using split stale fresh by blast
  have ac: "activeConnections ?s' (socket_ip a)
              = Some (or_zero_plus_one (activeConnections s (socket_ip a)))"
    by (simp add: on_connection_def Let_def)
  have act: "snd (on_connection s a pushed now) = Destroy \<longleftrightarrow>
          js_gt (activeConnections ?s' (socket_ip a)) MAX_CONNECTIONS_PER_IP
          \<or> MAX_QUEUE_SIZE < length ?q"
    by (simp add: on_connection_def Let_def queue_of_def)
  have mw: "(case mw_on_connection m a of (m', act) \<Rightarrow>
      m' a = Some (or_zero_plus_one (m a)) \<and> (act = Destroy \<longleftrightarrow> js_gt (m' a) 10))"
    by (simp add: mw_on_connection_def Let_def)
  show ?thesis using ex ac act mw by (simp add: case_prod_beta)
qed

theorem connection_limits_before_pruning_witness:
  "snd (on_connection \<lparr>activeConnections = Map.empty,
                       requestQueue = [''10.0.0.1'' \<mapsto> replicate 400 0]\<rparr>
          (Some ''10.0.0.1'') 100000 100000) = Destroy
   \<and> snd (on_connection tracker_init (Some ''10.0.0.1'') 100000 100000) \<noteq> Destroy
   \<and> snd (mw_on_connection [Some ''10.0.0.1'' \<mapsto> Num 10] (Some ''10.0.0.1'')) = Destroy"
proof -
  let ?old = "\<lparr>activeConnections = Map.empty,
               requestQueue = [''10.0.0.1'' \<mapsto> replicate 400 (0::int)]\<rparr>"
  let ?m = "[Some ''10.0.0.1'' \<mapsto> Num 10]"
  note full = connection_limits_before_pruning
                [where s = ?old and a = "Some ''10.0.0.1''" and pushed = 100000 and now = 100000
                   and m = ?m]
  note fresh = connection_limits_before_pruning
                [where s = tracker_init and a = "Some ''10.0.0.1''" and pushed = 100000
                   and now = 100000 and m = ?m]
  have long: "MAX_QUEUE_SIZE < length (queue_of ?old (socket_ip (Some ''10.0.0.1'')) @ [100000])"
    by (simp add: queue_of_def MAX_QUEUE_SIZE_def)
  have d1: "snd (on_connection ?old (Some ''10.0.0.1'') 100000 100000) = Destroy"
    using full long by (simp add: case_prod_beta)
  have short: "\<not> MAX_QUEUE_SIZE
                 < length (queue_of tracker_init (socket_ip (Some ''10.0.0.1'')) @ [100000])"
    by (simp add: queue_of_def MAX_QUEUE_SIZE_def tracker_init_def)
  have one: "activeConnections (fst (on_connection tracker_init (Some ''10.0.0.1'') 100000 100000))
               (socket_ip (Some ''10.0.0.1'')) = Some (Num 1)"
    using fresh by (simp add: case_prod_beta tracker_init_def)
  have d2: "snd (on_connection tracker_init (Some ''10.0.0.1'') 100000 100000) \<noteq> Destroy"
    using fresh short unfolding case_prod_beta one
    by (simp add: MAX_CONNECTIONS_PER_IP_def)
  have eleven: "fst (mw_on_connection ?m (Some ''10.0.0.1'')) (Some ''10.0.0.1'') = Some (Num 11)"
    using full by (simp add: case_prod_beta)
  have d3: "snd (mw_on_connection ?m (Some ''10.0.0.1'')) = Destroy"
    using full unfolding case_prod_beta eleven by simp
  show ?thesis using d1 d2 d3 by blast
qed

text \<open>
  C9: after any trace of connection and close events, the entry of a key in
  \<open>activeConnections\<close> is the number of that key's sockets still open, a positive number,
  and the key has no entry exactly when that number is 0. This holds for server.js (keys
  \<open>socket_ip a\<close>) and for middleware.js (keys \<open>a\<close>).
\<close>

theorem active_count_tracks_open_sockets:
  assumes "lifecycle evs"
  shows "activeConnections (run_events tracker_init evs) ip
           = stored_count (count_list (map socket_ip (open_sockets evs)) ip)
       \<and> (\<forall>v. activeConnections (run_events tracker_init evs) ip = Some v \<longrightarrow> (\<exists>n. v = Num n \<and> 0 < n))
       \<and> (activeConnections (run_events tracker_init evs) ip = None
            \<longleftrightarrow> count_list (map socket_ip (open_sockets evs)) ip = 0)
       \<and> mw_run_events Map.empty evs a = stored_count (count_list (open_sockets evs) a)
       \<and> (\<forall>v. mw_run_events Map.empty evs a = Some v \<longrightarrow> (\<exists>n. v = Num n \<and> 0 < n))
       \<and> (mw_run_events Map.empty evs a = None \<longleftrightarrow> count_list (open_sockets evs) a = 0)"
proof -
  have srv: "activeConnections (run_events tracker_init evs) ip
           = stored_count (count_list (map socket_ip (open_sockets evs)) ip)"
    using assms run_keeps_count[of "[]" evs tracker_init ip]
    by (simp add: lifecycle_def run_events_def open_sockets_def tracker_init_def stored_count_def)
  have mw: "mw_run_events Map.empty evs a = stored_count (count_list (open_sockets evs) a)"
    using assms mw_run_keeps_count[of "[]" evs Map.empty a]
    by (simp add: lifecycle_def mw_run_events_def open_sockets_def stored_count_def)
  show ?thesis unfolding srv mw by (simp add: stored_count_def)
qed

theorem active_count_tracks_open_sockets_witness:
  "lifecycle [Opened (Some ''10.0.0.1'') 0 0, Opened (Some ''10.0.0.1'') 5 5, Closed (Some ''10.0.0.1'')]
   \<and> activeConnections (run_events tracker_init
        [Opened (Some ''10.0.0.1'') 0 0, Opened (Some ''10.0.0.1'') 5 5, Closed (Some ''10.0.0.1'')])
        ''10.0.0.1'' = Some (Num 1)
   \<and> mw_run_events Map.empty
        [Opened (Some ''10.0.0.1'') 0 0, Opened (Some ''10.0.0.1'') 5 5, Closed (Some ''10.0.0.1'')]
        None = None"
proof -
  have l: "lifecycle [Opened (Some ''10.0.0.1'') 0 0, Opened (Some ''10.0.0.1'') 5 5,
                      Closed (Some ''10.0.0.1'')]"
    by (simp add: lifecycle_def)
  show ?thesis
    using l active_count_tracks_open_sockets[OF l, of "''10.0.0.1''" None]
    by (simp add: open_sockets_def stored_count_def)
qed

text \<open>
  C10: in server.js the keys of \<open>requestQueue\<close> only grow. A connection event puts the
  socket's key in the map, the close listener leaves the map as it is, and no later event
  of any trace removes a key.
\<close>

theorem request_queue_keys_grow:
  "socket_ip a \<in> dom (requestQueue (fst (on_connection s a pushed now)))
   \<and> requestQueue (on_close s ip) = requestQueue s
   \<and> dom (requestQueue s) \<subseteq> dom (requestQueue (run_events s evs))
   \<and> socket_ip a \<in> dom (requestQueue (run_events s (Opened a pushed now # evs)))"
proof -
  have put: "socket_ip a \<in> dom (requestQueue (fst (on_connection s a pushed now)))"
    by (simp add: on_connection_def Let_def)
  have close: "requestQueue (on_close s ip) = requestQueue s"
    by (simp add: on_close_def Let_def)
  have grow: "dom (requestQueue s) \<subseteq> dom (requestQueue (run_events s evs))"
    using run_keeps_queue_keys[of _ s evs] by (auto simp: run_events_def)
  have later: "socket_ip a \<in> dom (requestQueue (run_events s (Opened a pushed now # evs)))"
    using run_keeps_queue_keys[OF put, of evs] by (simp add: run_events_def)
  show ?thesis using put close grow later by blast
qed

theorem request_queue_keys_grow_witness:
  "''10.0.0.1'' \<in> dom (requestQueue (run_events tracker_init
      [Opened (Some ''10.0.0.1'') 0 0, Closed (Some ''10.0.0.1''), Opened None 70000 70000]))
   \<and> activeConnections (run_events tracker_init
      [Opened (Some ''10.0.0.1'') 0 0, Closed (Some ''10.0.0.1''), Opened None 70000 70000])
      ''10.0.0.1'' = None"
  using request_queue_keys_grow[where a = "Some ''10.0.0.1''" and s = tracker_init
          and pushed = 0 and now = 0 and ip = "''10.0.0.1''"
          and evs = "[Closed (Some ''10.0.0.1''), Opened None 70000 70000]"]
  by (simp add: run_events_def tracker_init_def on_connection_def on_close_def Let_def)

section \<open>Properties of the request pipeline\<close>

lemma server_js_blocked: "\<not> isAllowed ''/server.js''"
  by (simp add: isAllowed_def allowedPatterns_def plus_def line_terminator_def)

lemma api_query_allowed: "isAllowed ''/api/query''"
  by (simp add: isAllowed_def allowedPatterns_def plus_def line_terminator_def)

lemma api_services_allowed: "isAllowed ''/api/get-services''"
  by (simp add: isAllowed_def allowedPatterns_def plus_def line_terminator_def)

text \<open>
  C1 as stated fails: the whitelist is not the first processing of a request. For
  \<open>GET /server.js\<close>, a path no pattern matches, the layers entered are the CORS middleware,
  the security-headers middleware and then the whitelist, and the 403 response carries
  the two headers set before the whitelist ran.
\<close>

theorem whitelist_not_first_counterexample:
  "\<not> isAllowed (req_path (example_request GET ''/server.js'' 0 (JObject [])))
   \<and> server example_env (example_request GET ''/server.js'' 0 (JObject [])) Map.empty
       = (Sent Whitelist
            \<lparr>status = 403, body = Text ''Access Forbidden'',
             headers = [(''X-Frame-Options'', ''SAMEORIGIN''), (''Content-Security-Policy'', csp)],
             via_send_wrapper = False\<rparr>,
          (new_ctx Map.empty)
            \<lparr>res_headers := [(''X-Frame-Options'', ''SAMEORIGIN''), (''Content-Security-Policy'', csp)],
             executed := [Cors, SecurityHeaders, Whitelist]\<rparr>)
   \<and> hd (executed (snd (server example_env (example_request GET ''/server.js'' 0 (JObject []))
                           Map.empty))) \<noteq> Whitelist"
  by (simp add: server_def server_app_def always_def cors_def security_headers_def whitelist_def
      setHeader_def respond_def new_ctx_def example_env_def example_request_def server_js_blocked)

text \<open>
  C1, amended: for every request that the CORS middleware passes on and whose path matches
  none of the whitelist patterns, server.js answers 403 with the plain text
  \<open>Access Forbidden\<close>, and no later gate or route handler runs (the layers entered are
  exactly CORS, security headers, whitelist; no query is issued and the limiter's store is
  untouched). The whitelist is the third layer: the response carries the headers set
  before it, and a request that the CORS middleware answers itself never reaches it.
\<close>

theorem whitelist_rejects_after_cors_and_headers:
  "(\<not> cors_answers e r \<and> \<not> isAllowed (req_path r) \<longrightarrow>
      server e r store =
        (Sent Whitelist
           \<lparr>status = 403, body = Text ''Access Forbidden'',
            headers = [(''X-Frame-Options'', ''SAMEORIGIN''), (''Content-Security-Policy'', csp)],
            via_send_wrapper = False\<rparr>,
         (new_ctx store)
           \<lparr>res_headers := [(''X-Frame-Options'', ''SAMEORIGIN''), (''Content-Security-Policy'', csp)],
            executed := [Cors, SecurityHeaders, Whitelist]\<rparr>))
   \<and> (cors_answers e r \<longrightarrow>
      server e r store = (ByLibrary Cors, (new_ctx store)\<lparr>executed := [Cors]\<rparr>))"
  by (simp add: server_def server_app_def always_def cors_def security_headers_def whitelist_def
      setHeader_def respond_def new_ctx_def)

theorem whitelist_rejects_after_cors_and_headers_witness:
  "\<not> cors_answers example_env (example_request GET ''/server.js'' 0 (JObject []))
   \<and> \<not> isAllowed (req_path (example_request GET ''/server.js'' 0 (JObject [])))
   \<and> fst (server example_env (example_request GET ''/server.js'' 0 (JObject [])) Map.empty)
       = Sent Whitelist
           \<lparr>status = 403, body = Text ''Access Forbidden'',
            headers = [(''X-Frame-Options'', ''SAMEORIGIN''), (''Content-Security-Policy'', csp)],
            via_send_wrapper = False\<rparr>"
proof -
  have pass: "\<not> cors_answers example_env (example_request GET ''/server.js'' 0 (JObject []))"
    by (simp add: example_env_def)
  have blocked: "\<not> isAllowed (req_path (example_request GET ''/server.js'' 0 (JObject [])))"
    by (simp add: example_request_def server_js_blocked)
  show ?thesis
    using pass blocked
      whitelist_rejects_after_cors_and_headers
        [where e = example_env and r = "example_request GET ''/server.js'' 0 (JObject [])"
           and store = Map.empty]
    by simp
qed










section \<open>Properties of the rate limiter\<close>










section \<open>Properties of the error responses\<close>

text \<open>
  C7 as stated fails: \<open>POST /api/query\<close> with a body of 1025 bytes is rejected by the body
  parser before any route handler runs, but the status the client receives is 500, not
  a status of the 400 class: the parser's 413 error goes to the global error handler.
\<close>

theorem oversized_body_status_counterexample:
  "body_limit < req_body_size (example_request POST ''/api/query'' 1025 (JObject []))
   \<and> fst (server example_env (example_request POST ''/api/query'' 1025 (JObject [])) Map.empty)
       = Sent ErrorHandler
           \<lparr>status = 500, body = error_json ''Internal server error.'',
            headers = [(''X-Frame-Options'', ''SAMEORIGIN''), (''Content-Security-Policy'', csp)],
            via_send_wrapper = False\<rparr>
   \<and> \<not> (400 \<le> status \<lparr>status = 500, body = error_json ''Internal server error.'',
            headers = [(''X-Frame-Options'', ''SAMEORIGIN''), (''Content-Security-Policy'', csp)],
            via_send_wrapper = False\<rparr>
         \<and> status \<lparr>status = 500, body = error_json ''Internal server error.'',
            headers = [(''X-Frame-Options'', ''SAMEORIGIN''), (''Content-Security-Policy'', csp)],
            via_send_wrapper = False\<rparr> < 500)"
  by (simp add: server_def server_app_def server_downstream_def api_routes_def
      always_def cors_def security_headers_def whitelist_def load_shedding_def body_parser_def
      body_limit_def error_handler_def setHeader_def respond_def new_ctx_def
      example_env_def example_request_def api_query_allowed)

text \<open>
  C7, amended: a request whose body exceeds the cap of 1024 bytes and that reaches the
  body parser (in server.js: the CORS middleware passes it on, its path is whitelisted
  and the server is not too busy; in middleware.js: the CORS middleware passes it on) is
  rejected at the parsing layer before any route handler runs and before any query is
  issued; the parser's error is answered by the global error handler with status 500 and
  the body \<open>{"error": "Internal server error."}\<close>.
\<close>

theorem oversized_body_gets_500:
  "(\<not> cors_answers e r \<and> isAllowed (req_path r) \<and> \<not> toobusy e \<and> req_body_size r > body_limit \<longrightarrow>
      server e r store =
        (Sent ErrorHandler
           \<lparr>status = 500, body = error_json ''Internal server error.'',
            headers = [(''X-Frame-Options'', ''SAMEORIGIN''), (''Content-Security-Policy'', csp)],
            via_send_wrapper = False\<rparr>,
         (new_ctx store)
           \<lparr>res_headers := [(''X-Frame-Options'', ''SAMEORIGIN''), (''Content-Security-Policy'', csp)],
            executed := [Cors, SecurityHeaders, Whitelist, TooBusy, JsonParser, ErrorHandler]\<rparr>))
   \<and> (\<not> cors_answers e r \<and> req_body_size r > body_limit \<longrightarrow>
      middleware_server e r store =
        (Sent ErrorHandler
           \<lparr>status = 500, body = error_json ''Internal server error.'',
            headers = [], via_send_wrapper = False\<rparr>,
         (new_ctx store)\<lparr>executed := [Cors, Helmet, JsonParser, ErrorHandler]\<rparr>))
   \<and> body_limit = 1024"
  by (simp add: server_def server_app_def server_downstream_def api_routes_def
      middleware_server_def middleware_app_def
      always_def cors_def helmet_def security_headers_def whitelist_def load_shedding_def
      body_parser_def error_handler_def setHeader_def respond_def new_ctx_def)
     (simp add: body_limit_def)

theorem oversized_body_gets_500_witness:
  "\<not> cors_answers example_env (example_request POST ''/api/query'' 1025 (JObject []))
   \<and> isAllowed (req_path (example_request POST ''/api/query'' 1025 (JObject [])))
   \<and> \<not> toobusy example_env
   \<and> req_body_size (example_request POST ''/api/query'' 1025 (JObject [])) > body_limit
   \<and> executed (snd (server example_env (example_request POST ''/api/query'' 1025 (JObject []))
                       Map.empty))
       = [Cors, SecurityHeaders, Whitelist, TooBusy, JsonParser, ErrorHandler]
   \<and> db_log (snd (middleware_server example_env
                     (example_request POST ''/api/query'' 1025 (JObject [])) Map.empty)) = []"
proof -
  let ?r = "example_request POST ''/api/query'' 1025 (JObject [])"
  have h: "\<not> cors_answers example_env ?r" "isAllowed (req_path ?r)" "\<not> toobusy example_env"
          "req_body_size ?r > body_limit"
    by (simp_all add: example_env_def example_request_def api_query_allowed body_limit_def)
  show ?thesis
    using h oversized_body_gets_500[where e = example_env and r = ?r and store = Map.empty]
    by (simp add: new_ctx_def)
qed

lemma layer_sendsD:
  "layer_sends P (Layer st ap (Middleware f)) \<Longrightarrow> f e r c = Send resp c' \<Longrightarrow> P st resp"
  "layer_sends P (Layer st ap (ErrorMiddleware g)) \<Longrightarrow> g x e r c = Send resp c' \<Longrightarrow> P st resp"
  unfolding layer_sends_def by (simp, blast)+

lemma dispatch_sends:
  "\<forall>l \<in> set ls. layer_sends P l \<Longrightarrow> fst (dispatch e r ls pending c) = Sent st resp \<Longrightarrow> P st resp"
proof (induction e r ls pending c rule: dispatch.induct)
  case (1 e r pending c)
  then show ?case by simp
next
  case (2 e r st' applies f ls c)
  then show ?case
    by (auto split: if_splits outcome.splits dest: layer_sendsD(1))
next
  case (3 e r st' applies f ls x c)
  then show ?case by simp
next
  case (4 e r st' applies f ls c)
  then show ?case by simp
next
  case (5 e r st' applies f ls x c)
  then show ?case
    by (auto split: if_splits outcome.splits dest: layer_sendsD(2))
qed

lemma json_error_messages:
  "json_error (error_json ''Server is too busy. Please try again later.'')"
  "json_error (error_json ''Request timed out. Please try again.'')"
  "json_error (error_json ''Database error.'')"
  "json_error (error_json ''Service not found'')"
  "json_error (error_json ''Error al obtener los eventos'')"
  "json_error (error_json ''Error al obtener las noticias'')"
  "json_error (error_json ''Noticia no encontrada'')"
  "json_error (error_json ''Error al obtener la noticia'')"
  "json_error (error_json ''Invalid query.'')"
  "json_error (error_json ''Internal server error.'')"
  by (simp_all add: json_error_def error_messages_def)

lemma gates_error_shape:
  "layer_sends (error_shape cfg) (Layer Cors ap (Middleware cors))"
  "layer_sends (error_shape cfg) (Layer Helmet ap (Middleware helmet))"
  "layer_sends (error_shape cfg) (Layer SecurityHeaders ap (Middleware security_headers))"
  "layer_sends (error_shape cfg) (Layer Whitelist ap (Middleware whitelist))"
  "layer_sends (error_shape cfg) (Layer TooBusy ap (Middleware load_shedding))"
  "layer_sends (error_shape cfg) (Layer st ap (Middleware (body_parser n)))"
  "layer_sends (error_shape cfg) (Layer RateLimiter ap (Middleware (rate_limiter cfg)))"
  "layer_sends (error_shape cfg) (Layer Timeout ap (Middleware timeout))"
  "layer_sends (error_shape cfg) (Layer TimeoutCheck ap (Middleware timeout_check))"
  "layer_sends (error_shape cfg) (Layer HtmlTemplate ap (Middleware html_template))"
  "layer_sends (error_shape cfg) (Layer st ap (Middleware (static dir)))"
  "layer_sends (error_shape cfg) (Layer ErrorHandler ap (ErrorMiddleware error_handler))"
  by (auto simp: layer_sends_def error_shape_def cors_def helmet_def security_headers_def
      whitelist_def load_shedding_def body_parser_def rate_limiter_def timeout_def
      timeout_check_def html_template_def static_def error_handler_def respond_def
      json_error_messages
      split: if_splits prod.splits bool.splits static_result.splits)

lemma handlers_error_shape:
  "layer_sends (error_shape cfg) (Layer st ap (Middleware (get_rows sql ''Database error.'')))"
  "layer_sends (error_shape cfg) (Layer st ap (Middleware (get_rows sql ''Error al obtener los eventos'')))"
  "layer_sends (error_shape cfg) (Layer st ap (Middleware (get_rows sql ''Error al obtener las noticias'')))"
  "layer_sends (error_shape cfg) (Layer st ap (Middleware get_config))"
  "layer_sends (error_shape cfg) (Layer st ap (Middleware get_empresas_details))"
  "layer_sends (error_shape cfg) (Layer st ap (Middleware get_service))"
  "layer_sends (error_shape cfg) (Layer st ap (Middleware get_noticia))"
  "layer_sends (error_shape cfg) (Layer st ap (Middleware post_query))"
  by (auto simp: layer_sends_def error_shape_def get_rows_def get_config_def
      get_empresas_details_def get_service_def get_service_handler_def get_noticia_def
      post_query_def query_handler_def respond_def json_error_messages Let_def
      split: if_splits sum.splits list.splits option.splits jsval.splits)

lemma server_app_error_shape: "\<forall>l \<in> set server_app. layer_sends (error_shape limiter) l"
  by (simp add: server_app_def server_downstream_def api_routes_def
      gates_error_shape handlers_error_shape)

lemma middleware_app_error_shape: "\<forall>l \<in> set middleware_app. layer_sends (error_shape mw_limiter) l"
  by (simp add: middleware_app_def api_routes_def gates_error_shape handlers_error_shape)

text \<open>
  C8 as stated fails: the 501st request of a client within one window to an API path of
  server.js is answered 429 by the rate limiter with the configured \<open>message\<close>, a plain
  string, not a JSON object with an \<open>error\<close> field; and the stage that writes it is not
  the whitelist gate.
\<close>

theorem rate_limit_body_counterexample:
  "fst (server example_env (example_request GET ''/api/get-services'' 0 (JObject []))
          [''10.0.0.1'' \<mapsto> (500, 0)])
     = Sent RateLimiter
         \<lparr>status = 429,
          body = Text ''Too many requests from this IP, please try again later.'',
          headers = [(''X-Frame-Options'', ''SAMEORIGIN''), (''Content-Security-Policy'', csp)],
          via_send_wrapper = False\<rparr>
   \<and> \<not> json_error (Text ''Too many requests from this IP, please try again later.'')
   \<and> RateLimiter \<noteq> Whitelist"
  by (simp add: server_def server_app_def server_downstream_def
      always_def mounted_def cors_def security_headers_def whitelist_def load_shedding_def
      body_parser_def body_limit_def rate_limiter_def rate_limit_def limiter_def
      setHeader_def respond_def new_ctx_def
      example_env_def example_request_def api_services_allowed
      json_error_def error_messages_def error_json_def)

text \<open>
  C8, amended: every response with a status of 400 or more that a gate or handler of
  server.js or middleware.js writes is a JSON object with the single field \<open>error\<close>
  holding one of the fixed messages of the source (so never the text of a database error
  or a stack trace), with two exceptions in plain text: the 403 \<open>Access Forbidden\<close> of the
  whitelist gate and the 429 of the rate limiter, whose configured message is a string.
\<close>

theorem error_responses_shape:
  "(fst (server e r store) = Sent st resp \<longrightarrow> error_shape limiter st resp)
 \<and> (fst (middleware_server e r store) = Sent st resp \<longrightarrow> error_shape mw_limiter st resp)"
  using dispatch_sends[OF server_app_error_shape, of e r None "new_ctx store" st resp]
        dispatch_sends[OF middleware_app_error_shape, of e r None "new_ctx store" st resp]
  by (simp add: server_def middleware_server_def)

theorem error_responses_shape_witness:
  "fst (server (example_env\<lparr>toobusy := True\<rparr>)
          (example_request GET ''/api/get-services'' 0 (JObject [])) Map.empty)
     = Sent TooBusy
         \<lparr>status = 503, body = error_json ''Server is too busy. Please try again later.'',
          headers = [(''X-Frame-Options'', ''SAMEORIGIN''), (''Content-Security-Policy'', csp)],
          via_send_wrapper = False\<rparr>
   \<and> error_shape limiter TooBusy
         \<lparr>status = 503, body = error_json ''Server is too busy. Please try again later.'',
          headers = [(''X-Frame-Options'', ''SAMEORIGIN''), (''Content-Security-Policy'', csp)],
          via_send_wrapper = False\<rparr>"
proof -
  let ?e = "example_env\<lparr>toobusy := True\<rparr>"
  let ?r = "example_request GET ''/api/get-services'' 0 (JObject [])"
  let ?resp = "\<lparr>status = 503, body = error_json ''Server is too busy. Please try again later.'',
          headers = [(''X-Frame-Options'', ''SAMEORIGIN''), (''Content-Security-Policy'', csp)],
          via_send_wrapper = False\<rparr>"
  have sent: "fst (server ?e ?r Map.empty) = Sent TooBusy ?resp"
    by (simp add: server_def server_app_def server_downstream_def
        always_def cors_def security_headers_def whitelist_def load_shedding_def
        setHeader_def respond_def new_ctx_def
        example_env_def example_request_def api_services_allowed)
  show ?thesis
    using sent error_responses_shape[where e = ?e and r = ?r and store = Map.empty
                                       and st = TooBusy and resp = ?resp]
    by simp
qed

end
